theory Spec2Isabelle
  imports Main
begin

section \<open>The directory client, as the adapter sees it\<close>

text \<open>
  The adapter (\<^verbatim>\<open>data/users/externalldap.py\<close>) drives an LDAP client library.  The
  library is outside the adapter: it appears here as a record of reply functions, one per
  call the adapter makes, and every call the adapter makes is written to a trace.
  Exceptions are values: a call either returns or gives the exception it raises.
\<close>

datatype scope = SCOPE_BASE | SCOPE_SUBTREE

text \<open>
  The exception classes of the client library that the adapter tells apart.  Each of them
  is a subclass of \<^verbatim>\<open>ldap.LDAPError\<close>; \<open>OTHER_LDAP_ERROR\<close> stands for every
  other subclass.  \<open>exc_args0\<close> is \<^verbatim>\<open>e.args[0]\<close>: \<open>None\<close> when the tuple
  \<^verbatim>\<open>e.args\<close> is empty, so that \<^verbatim>\<open>e.args[0]\<close> raises \<^verbatim>\<open>IndexError\<close>, and
  otherwise the dictionary found there, as an association list (it may be empty).
  \<open>exc_str\<close> is what \<^verbatim>\<open>str(e)\<close> returns.
\<close>

datatype ldap_error_class = INVALID_CREDENTIALS | REFERRAL | NO_SUCH_OBJECT | OTHER_LDAP_ERROR

datatype ldap_exc =
  LDAPError (exc_class: ldap_error_class) (exc_args0: "(string \<times> string) list option")
    (exc_str: string)

text \<open>The exceptions that can leave one of the adapter's functions.\<close>

datatype py_exc =
  LDAPExc ldap_exc | AssertionError | UnboundLocalError | IndexError | TypeError | KeyError

text \<open>
  An attribute value is \<^verbatim>\<open>bytes\<close> (what the library returns) or \<^verbatim>\<open>str\<close> (what
  test doubles return).  Text is kept as its UTF-8 bytes.
\<close>

datatype pyval = PyBytes string | PyStr string

type_synonym attrs = "(string \<times> pyval list) list"

text \<open>
  One element of a search result: an entry \<^verbatim>\<open>(dn, attrs)\<close> with a dictionary of
  attributes (the DN may be empty), or a search reference \<^verbatim>\<open>(None, [url, ...])\<close>,
  whose second component is a list.
\<close>

datatype search_entry = Entry string attrs | SearchRef "string list"

text \<open>A response control of the server: its type (an OID) and its cookie.\<close>

datatype control = Control (controlType: string) (cookie: string)

text \<open>
  An asynchronous search request: base, scope, filter, requested attributes, and the
  paging control sent with it (page size and cookie) if any.  \<^verbatim>\<open>conn.search_ext\<close> and
  \<^verbatim>\<open>conn.search\<close> issue it and return a message id; \<^verbatim>\<open>conn.result3\<close> and
  \<^verbatim>\<open>conn.result\<close> fetch the reply for that message id.
\<close>

datatype search_req =
  SearchReq (req_base: string) (req_scope: scope) (req_filter: string)
    (req_attrlist: "string list option") (req_paging: "(nat \<times> string) option")

datatype ldap_op =
    SimpleBind string string
  | Unbind
  | SearchS string scope string
  | SearchIssue search_req
  | SearchResult search_req

record directory =
  robots :: "string \<Rightarrow> bool"
  simple_bind_s :: "string \<Rightarrow> string \<Rightarrow> ldap_exc option"
  search_s :: "string \<Rightarrow> scope \<Rightarrow> string \<Rightarrow> ldap_exc + search_entry list"
  search_issue :: "search_req \<Rightarrow> ldap_exc option"
  search_result :: "search_req \<Rightarrow> ldap_exc + (search_entry list \<times> control list)"

text \<open>
  \<open>robots w name\<close> holds when \<^verbatim>\<open>lookup_robot(name)\<close> returns (the name is a
  robot account of the host application); otherwise it raises
  \<^verbatim>\<open>InvalidRobotException\<close>.
\<close>

text \<open>
  A computation of the adapter: the directory operations it performed, in order, and
  either the exception it raised or its value.
\<close>

type_synonym 'a io = "ldap_op list \<times> (py_exc + 'a)"

definition ret :: "'a \<Rightarrow> 'a io" where
  "ret x = ([], Inr x)"

definition raise :: "py_exc \<Rightarrow> 'a io" where
  "raise e = ([], Inl e)"

definition bnd :: "'a io \<Rightarrow> ('a \<Rightarrow> 'b io) \<Rightarrow> 'b io" where
  "bnd m f =
     (case m of
        (t, Inl e) \<Rightarrow> (t, Inl e)
      | (t, Inr x) \<Rightarrow> (case f x of (t', r) \<Rightarrow> (t @ t', r)))"

text \<open>
  \<^verbatim>\<open>with LDAPConnection(uri, dn, pw, ...) as conn: body\<close>.  \<^verbatim>\<open>__enter__\<close> sets the
  transport options (timeouts, keepalive, TLS fallback, referral chasing: they do not
  change what the adapter computes and are not modelled) and binds; when the bind raises,
  the body does not run and \<^verbatim>\<open>__exit__\<close> is not called.  Otherwise
  \<^verbatim>\<open>__exit__\<close> unbinds on every way out of the body and lets an exception of the body
  pass.
\<close>

definition with_connection :: "directory \<Rightarrow> string \<Rightarrow> string \<Rightarrow> 'a io \<Rightarrow> 'a io" where
  "with_connection w dn pw body =
     (case simple_bind_s w dn pw of
        Some e \<Rightarrow> ([SimpleBind dn pw], Inl (LDAPExc e))
      | None \<Rightarrow> (case body of (t, r) \<Rightarrow> (SimpleBind dn pw # t @ [Unbind], r)))"

section \<open>Strings\<close>

definition startswith :: "string \<Rightarrow> string \<Rightarrow> bool" where
  "startswith s p = (take (length p) s = p)"

definition endswith :: "string \<Rightarrow> string \<Rightarrow> bool" where
  "endswith s p = (length p \<le> length s \<and> drop (length s - length p) s = p)"

text \<open>\<^verbatim>\<open>sep.join(xs)\<close> and \<^verbatim>\<open>s.split(",")\<close> (a one-character separator).\<close>

fun join :: "string \<Rightarrow> string list \<Rightarrow> string" where
  "join sep [] = []"
| "join sep [x] = x"
| "join sep (x # y # ys) = x @ sep @ join sep (y # ys)"

fun split_on :: "char \<Rightarrow> string \<Rightarrow> string list" where
  "split_on c [] = [[]]"
| "split_on c (x # xs) =
     (if x = c then [] # split_on c xs
      else (case split_on c xs of [] \<Rightarrow> [[x]] | p # ps \<Rightarrow> (x # p) # ps))"

text \<open>\<^verbatim>\<open>s.replace(c, r)\<close> for a one-character \<open>c\<close>.\<close>

definition replace_char :: "char \<Rightarrow> string \<Rightarrow> string \<Rightarrow> string" where
  "replace_char c r s = concat (map (\<lambda>x. if x = c then r else [x]) s)"

text \<open>
  \<^verbatim>\<open>ldap.filter.escape_filter_chars(value)\<close> of the client library, in its default
  mode: five replacements in this order, backslash first.
  \<^verbatim>\<open>
    s = assertion_value.replace('\\', r'\5c')
    s = s.replace(r'*', r'\2a')
    s = s.replace(r'(', r'\28')
    s = s.replace(r')', r'\29')
    s = s.replace('\x00', r'\00')
  \<close>
\<close>

definition escape_filter_chars :: "string \<Rightarrow> string" where
  "escape_filter_chars v =
     replace_char (CHR 0x00) (CHR 0x5C # ''00'')
       (replace_char CHR '')'' (CHR 0x5C # ''29'')
         (replace_char CHR ''('' (CHR 0x5C # ''28'')
           (replace_char CHR ''*'' (CHR 0x5C # ''2a'')
             (replace_char (CHR 0x5C) (CHR 0x5C # ''5c'') v))))"

section \<open>The adapter's configuration\<close>

text \<open>
  The fields of \<^verbatim>\<open>LDAPUsers\<close> that its methods read.  A filter that was not given
  is \<^verbatim>\<open>None\<close>.
\<close>

record ldap_users =
  ldap_uri :: string
  admin_dn :: string
  admin_passwd :: string
  uid_attr :: string
  email_attr :: string
  memberof_attr :: string
  requires_email :: bool
  force_no_pagination :: bool
  ldap_user_filter :: "string option"
  ldap_superuser_filter :: "string option"
  ldap_global_readonly_superuser_filter :: "string option"
  ldap_restricted_user_filter :: "string option"
  user_dns :: "string list"
  base_dn :: string

text \<open>Python's truth value of an optional string: \<^verbatim>\<open>None\<close> and \<^verbatim>\<open>""\<close> are false.\<close>

definition truthy :: "string option \<Rightarrow> bool" where
  "truthy s = (case s of None \<Rightarrow> False | Some v \<Rightarrow> v \<noteq> [])"

text \<open>
  \<^verbatim>\<open>__init__\<close>: the candidate base paths.  \<open>user_rdn\<close> is a list of RDN pieces,
  \<open>secondary_user_rdns\<close> a list of RDN strings, \<open>base\<close> the list of base DN pieces.
\<close>

definition get_full_rdn :: "string list \<Rightarrow> string \<Rightarrow> string" where
  "get_full_rdn base relative_dn =
     join '','' ((if relative_dn \<noteq> [] then split_on CHR '','' relative_dn else []) @ base)"

definition init_user_dns :: "string list \<Rightarrow> string list \<Rightarrow> string list option \<Rightarrow> string list" where
  "init_user_dns base user_rdn secondary_user_rdns =
     map (get_full_rdn base)
       ([join '','' user_rdn] @ (case secondary_user_rdns of None \<Rightarrow> [] | Some l \<Rightarrow> l))"

section \<open>Filter composition\<close>

text \<open>
  \<^verbatim>\<open>_add_filter\<close>: both fragments are wrapped in parentheses when they are not, the two
  assertions are checked, and the fragments are conjoined.
\<close>

definition paren :: "string \<Rightarrow> string" where
  "paren q = (if \<not> startswith q ''('' \<or> \<not> endswith q '')'' then ''('' @ q @ '')'' else q)"

definition add_filter :: "string \<Rightarrow> string \<Rightarrow> py_exc + string" where
  "add_filter query user_filter =
     (let query = paren query; user_filter = paren user_filter in
      if \<not> (startswith user_filter ''('' \<and> endswith user_filter '')'') then Inl AssertionError
      else if \<not> (startswith query ''('' \<and> endswith query '')'') then Inl AssertionError
      else Inr (''(&'' @ query @ user_filter @ '')''))"

text \<open>
  \<^verbatim>\<open>_add_user_filter\<close> returns the query unchanged when no user filter is configured
  (\<^verbatim>\<open>None\<close> or empty); the three role variants assert that their filter is
  configured.
\<close>

definition add_user_filter :: "ldap_users \<Rightarrow> string \<Rightarrow> py_exc + string" where
  "add_user_filter c query =
     (case ldap_user_filter c of
        None \<Rightarrow> Inr query
      | Some f \<Rightarrow> if f = [] then Inr query else add_filter query f)"

definition add_superuser_filter :: "ldap_users \<Rightarrow> string \<Rightarrow> py_exc + string" where
  "add_superuser_filter c query =
     (case ldap_superuser_filter c of
        None \<Rightarrow> Inl AssertionError
      | Some f \<Rightarrow> if f = [] then Inl AssertionError else add_filter query f)"

definition add_global_readonly_superuser_filter :: "ldap_users \<Rightarrow> string \<Rightarrow> py_exc + string" where
  "add_global_readonly_superuser_filter c query =
     (case ldap_global_readonly_superuser_filter c of
        None \<Rightarrow> Inl AssertionError
      | Some f \<Rightarrow> if f = [] then Inl AssertionError else add_filter query f)"

definition add_restricted_user_filter :: "ldap_users \<Rightarrow> string \<Rightarrow> py_exc + string" where
  "add_restricted_user_filter c query =
     (case ldap_restricted_user_filter c of
        None \<Rightarrow> Inl AssertionError
      | Some f \<Rightarrow> if f = [] then Inl AssertionError else add_filter query f)"

section \<open>Referrals\<close>

text \<open>
  \<^verbatim>\<open>_get_ldap_referral_dn\<close>: the DN of a referral, or \<^verbatim>\<open>None\<close>.  Line 172
  reads \<^verbatim>\<open>referral_exception.args[0]\<close> first, which raises \<^verbatim>\<open>IndexError\<close> for an
  exception without arguments.  The payload must be a non-empty dictionary with a
  non-empty \<^verbatim>\<open>info\<close>, the info must start with the header line, and what follows with
  the scheme.
\<close>

definition referral_header :: string where
  "referral_header = ''Referral:'' @ [CHR 0x0A]"

definition get_ldap_referral_dn :: "ldap_exc \<Rightarrow> py_exc + string option" where
  "get_ldap_referral_dn referral_exception =
     (case exc_args0 referral_exception of
        None \<Rightarrow> Inl IndexError
      | Some payload \<Rightarrow>
          if payload = [] then Inr None
          else
            (case map_of payload ''info'' of
               None \<Rightarrow> Inr None
             | Some referral_info \<Rightarrow>
                 if referral_info = [] then Inr None
                 else if \<not> startswith referral_info referral_header then Inr None
                 else
                   let referral_uri = drop (length referral_header) referral_info in
                   if \<not> startswith referral_uri ''ldap:///'' then Inr None
                   else Inr (Some (drop (length ''ldap:///'') referral_uri))))"

section \<open>The user search\<close>

text \<open>
  Lines 237--252 of \<^verbatim>\<open>_ldap_user_search_with_rdn\<close>: the role filter asked for is
  conjoined to the query.  The result is an exception, or the message of an early return
  (\<open>Inl\<close>: the role filter is not configured), or the query to send (\<open>Inr\<close>).
\<close>

definition add_role_filter ::
  "ldap_users \<Rightarrow> bool \<Rightarrow> bool \<Rightarrow> bool \<Rightarrow> string \<Rightarrow> py_exc + (string + string)"
where
  "add_role_filter c filter_superusers filter_restricted_users filter_global_readonly_superusers query =
     (if filter_restricted_users then
        (if \<not> truthy (ldap_restricted_user_filter c) then Inr (Inl ''Username not found'')
         else map_sum id Inr (add_restricted_user_filter c query))
      else if filter_superusers then
        (if \<not> truthy (ldap_superuser_filter c) then Inr (Inl ''Superuser username not found'')
         else map_sum id Inr (add_superuser_filter c query))
      else if filter_global_readonly_superusers then
        (if \<not> truthy (ldap_global_readonly_superuser_filter c)
         then Inr (Inl ''Global readonly superuser username not found'')
         else map_sum id Inr (add_global_readonly_superuser_filter c query))
      else Inr (Inr query))"

text \<open>
  The two filters \<^verbatim>\<open>_ldap_user_search_with_rdn\<close> builds from the lookup term: the
  query of line 231, and the subquery of line 263 for a referral's DN.
\<close>

definition user_query :: "ldap_users \<Rightarrow> string \<Rightarrow> string \<Rightarrow> string" where
  "user_query c username_or_email suffix =
     ''(|('' @ uid_attr c @ ''='' @ escape_filter_chars username_or_email @ suffix
       @ '')('' @ email_attr c @ ''='' @ escape_filter_chars username_or_email @ suffix @ ''))''"

definition referral_subquery :: "ldap_users \<Rightarrow> string \<Rightarrow> string" where
  "referral_subquery c username_or_email = ''('' @ uid_attr c @ ''='' @ username_or_email @ '')''"

text \<open>
  The \<^verbatim>\<open>except ldap.REFERRAL\<close> branch: the referral's DN is searched once, at base
  scope; any directory error of that search is a miss.  The call of
  \<^verbatim>\<open>_get_ldap_referral_dn\<close> (line 258) is in the handler, outside the inner
  \<^verbatim>\<open>try\<close>: its exception leaves the function.
\<close>

definition follow_referral ::
  "ldap_users \<Rightarrow> directory \<Rightarrow> string \<Rightarrow> ldap_exc
     \<Rightarrow> (search_entry list option \<times> string option) io"
where
  "follow_referral c w username_or_email re =
     (case get_ldap_referral_dn re of
        Inl x \<Rightarrow> raise x
      | Inr None \<Rightarrow> ret (None, Some ''Failed to follow referral when looking up username'')
      | Inr (Some referral_dn) \<Rightarrow>
          if referral_dn = [] then
            ret (None, Some ''Failed to follow referral when looking up username'')
          else
            (case add_user_filter c (referral_subquery c username_or_email) of
               Inl e \<Rightarrow> raise e
             | Inr subquery \<Rightarrow>
                 (case search_s w referral_dn SCOPE_BASE subquery of
                    Inr pairs \<Rightarrow> ([SearchS referral_dn SCOPE_BASE subquery], Inr (Some pairs, None))
                  | Inl e \<Rightarrow>
                      ([SearchS referral_dn SCOPE_BASE subquery],
                       Inr (None, Some ''Username not found'')))))"

definition ldap_user_search_with_rdn ::
  "ldap_users \<Rightarrow> directory \<Rightarrow> string \<Rightarrow> string \<Rightarrow> string \<Rightarrow> bool \<Rightarrow> bool \<Rightarrow> bool
     \<Rightarrow> (search_entry list option \<times> string option) io"
where
  "ldap_user_search_with_rdn c w username_or_email user_search_dn suffix
       filter_superusers filter_restricted_users filter_global_readonly_superusers =
     (case add_user_filter c (user_query c username_or_email suffix) of
        Inl e \<Rightarrow> raise e
      | Inr query \<Rightarrow>
          (case add_role_filter c filter_superusers filter_restricted_users
                  filter_global_readonly_superusers query of
             Inl e \<Rightarrow> raise e
           | Inr (Inl msg) \<Rightarrow> ret (None, Some msg)
           | Inr (Inr query) \<Rightarrow>
               (case search_s w user_search_dn SCOPE_SUBTREE query of
                  Inr pairs \<Rightarrow> ([SearchS user_search_dn SCOPE_SUBTREE query], Inr (Some pairs, None))
                | Inl e \<Rightarrow>
                    if exc_class e = REFERRAL then
                      bnd ([SearchS user_search_dn SCOPE_SUBTREE query], Inr ())
                        (\<lambda>_. follow_referral c w username_or_email e)
                    else
                      ([SearchS user_search_dn SCOPE_SUBTREE query],
                       Inr (None, Some ''Username not found'')))))"

text \<open>
  The loop of \<^verbatim>\<open>_ldap_user_search\<close> over the candidate base paths.  \<open>prev\<close> is the
  pair \<^verbatim>\<open>(pairs, err_msg)\<close> as the previous iteration left it (\<open>None\<close> before the
  first); the loop stops at the first path whose \<^verbatim>\<open>pairs\<close> is a non-empty list.
\<close>

definition found_some :: "search_entry list option \<times> string option \<Rightarrow> bool" where
  "found_some r = (case fst r of None \<Rightarrow> False | Some pairs \<Rightarrow> length pairs > 0)"

fun search_user_dns ::
  "ldap_users \<Rightarrow> directory \<Rightarrow> string \<Rightarrow> string \<Rightarrow> bool \<Rightarrow> bool \<Rightarrow> bool
     \<Rightarrow> (search_entry list option \<times> string option) option \<Rightarrow> string list
     \<Rightarrow> (search_entry list option \<times> string option) option io"
where
  "search_user_dns c w u suffix fs fr fg prev [] = ret prev"
| "search_user_dns c w u suffix fs fr fg prev (user_search_dn # dns) =
     bnd (ldap_user_search_with_rdn c w u user_search_dn suffix fs fr fg)
       (\<lambda>r. if found_some r then ret (Some r)
            else search_user_dns c w u suffix fs fr fg (Some r) dns)"

text \<open>
  The admin bind is tried first, on a connection of its own; only
  \<^verbatim>\<open>INVALID_CREDENTIALS\<close> is caught there.
\<close>

definition check_admin_bind :: "ldap_users \<Rightarrow> directory \<Rightarrow> string option io" where
  "check_admin_bind c w =
     (case with_connection w (admin_dn c) (admin_passwd c) (ret ()) of
        (t, Inr _) \<Rightarrow> (t, Inr None)
      | (t, Inl (LDAPExc e)) \<Rightarrow>
          if exc_class e = INVALID_CREDENTIALS
          then (t, Inr (Some ''LDAP Admin dn or password is invalid''))
          else (t, Inl (LDAPExc e))
      | (t, Inl e) \<Rightarrow> (t, Inl e))"

text \<open>
  A result \<^verbatim>\<open>_LDAPResult(dn, attrs)\<close> that survives the filter on a true
  \<^verbatim>\<open>dn\<close>: an entry with a non-empty DN.
\<close>

fun with_dn :: "search_entry \<Rightarrow> (string \<times> attrs) option" where
  "with_dn (Entry dn a) = (if dn \<noteq> [] then Some (dn, a) else None)"
| "with_dn (SearchRef urls) = None"

definition ldap_user_search ::
  "ldap_users \<Rightarrow> directory \<Rightarrow> string \<Rightarrow> nat \<Rightarrow> string \<Rightarrow> bool \<Rightarrow> bool \<Rightarrow> bool
     \<Rightarrow> ((string \<times> attrs) list option \<times> string option) io"
where
  "ldap_user_search c w username_or_email limit suffix
       filter_superusers filter_restricted_users filter_global_readonly_superusers =
     (if username_or_email = [] then ret (None, Some ''Empty username/email'')
      else if robots w username_or_email then
        ret (None, Some (''LDAP lookup for robots disabled '' @ username_or_email))
      else
        bnd (check_admin_bind c w) (\<lambda>bad.
          case bad of
            Some msg \<Rightarrow> ret (None, Some msg)
          | None \<Rightarrow>
              with_connection w (admin_dn c) (admin_passwd c)
                (bnd (search_user_dns c w username_or_email suffix filter_superusers
                        filter_restricted_users filter_global_readonly_superusers None (user_dns c))
                   (\<lambda>final.
                      case final of
                        None \<Rightarrow> raise UnboundLocalError
                      | Some (pairs, Some err_msg) \<Rightarrow> ret (None, Some err_msg)
                      | Some (None, None) \<Rightarrow> raise TypeError
                      | Some (Some pairs, None) \<Rightarrow>
                          ret (Some (List.map_filter with_dn (take limit pairs)), None)))))"

definition ldap_single_user_search ::
  "ldap_users \<Rightarrow> directory \<Rightarrow> string \<Rightarrow> bool \<Rightarrow> bool \<Rightarrow> bool
     \<Rightarrow> ((string \<times> attrs) option \<times> string option) io"
where
  "ldap_single_user_search c w username_or_email
       filter_superusers filter_restricted_users filter_global_readonly_superusers =
     (if robots w username_or_email then
        ret (None, Some (''LDAP lookup for robots disabled '' @ username_or_email))
      else
        bnd (ldap_user_search c w username_or_email 20 [] filter_superusers
               filter_restricted_users filter_global_readonly_superusers)
          (\<lambda>(with_dns, err_msg).
             case err_msg of
               Some m \<Rightarrow> ret (None, Some m)
             | None \<Rightarrow>
                 (case with_dns of
                    None \<Rightarrow> raise TypeError
                  | Some [] \<Rightarrow> ret (None, Some ''Invalid username or password.'')
                  | Some [r] \<Rightarrow> ret (Some r, None)
                  | Some (r # rs) \<Rightarrow>
                      (case filter (\<lambda>result. case map_of (snd result) (email_attr c) of
                                                 None \<Rightarrow> False | Some vs \<Rightarrow> vs \<noteq> [])
                              (r # rs) of
                         [] \<Rightarrow> ret (Some r, None)
                       | m # ms \<Rightarrow> ret (Some m, None)))))"

section \<open>Identity records\<close>

text \<open>
  \<^verbatim>\<open>bytes.decode("utf-8")\<close> succeeds on well-formed UTF-8 only: no overlong form, no
  surrogate, nothing above U+10FFFF.
\<close>

definition cont_byte :: "nat \<Rightarrow> bool" where
  "cont_byte b = (0x80 \<le> b \<and> b \<le> 0xBF)"

fun utf8_ok :: "nat list \<Rightarrow> bool" where
  "utf8_ok [] = True"
| "utf8_ok [a] = (a < 0x80)"
| "utf8_ok [a, b] =
     (if a < 0x80 then utf8_ok [b] else 0xC2 \<le> a \<and> a \<le> 0xDF \<and> cont_byte b)"
| "utf8_ok [a, b, c] =
     (if a < 0x80 then utf8_ok [b, c]
      else if 0xC2 \<le> a \<and> a \<le> 0xDF then cont_byte b \<and> utf8_ok [c]
      else if a = 0xE0 then 0xA0 \<le> b \<and> b \<le> 0xBF \<and> cont_byte c
      else if a = 0xED then 0x80 \<le> b \<and> b \<le> 0x9F \<and> cont_byte c
      else 0xE1 \<le> a \<and> a \<le> 0xEF \<and> cont_byte b \<and> cont_byte c)"
| "utf8_ok (a # b # c # d # rest) =
     (if a < 0x80 then utf8_ok (b # c # d # rest)
      else if 0xC2 \<le> a \<and> a \<le> 0xDF then cont_byte b \<and> utf8_ok (c # d # rest)
      else if a = 0xE0 then 0xA0 \<le> b \<and> b \<le> 0xBF \<and> cont_byte c \<and> utf8_ok (d # rest)
      else if a = 0xED then 0x80 \<le> b \<and> b \<le> 0x9F \<and> cont_byte c \<and> utf8_ok (d # rest)
      else if 0xE1 \<le> a \<and> a \<le> 0xEF then cont_byte b \<and> cont_byte c \<and> utf8_ok (d # rest)
      else if a = 0xF0 then 0x90 \<le> b \<and> b \<le> 0xBF \<and> cont_byte c \<and> cont_byte d \<and> utf8_ok rest
      else if a = 0xF4 then 0x80 \<le> b \<and> b \<le> 0x8F \<and> cont_byte c \<and> cont_byte d \<and> utf8_ok rest
      else 0xF1 \<le> a \<and> a \<le> 0xF3 \<and> cont_byte b \<and> cont_byte c \<and> cont_byte d \<and> utf8_ok rest)"

text \<open>
  \<^verbatim>\<open>v.decode("utf-8")\<close>, falling back to \<open>v\<close> itself on
  \<^verbatim>\<open>UnicodeDecodeError\<close> (bytes that are not UTF-8) and on \<^verbatim>\<open>AttributeError\<close>
  (a \<^verbatim>\<open>str\<close> has no \<^verbatim>\<open>decode\<close>).
\<close>

definition decode_or_raw :: "pyval \<Rightarrow> pyval" where
  "decode_or_raw v =
     (case v of
        PyBytes b \<Rightarrow> if utf8_ok (map of_char b) then PyStr b else PyBytes b
      | PyStr t \<Rightarrow> PyStr t)"

record user_information =
  username :: pyval
  email :: "pyval option"
  user_id :: pyval

text \<open>
  \<^verbatim>\<open>_build_user_information\<close>.  A missing email with \<^verbatim>\<open>requires_email\<close> off
  gives the email \<^verbatim>\<open>None\<close>; an email attribute with an empty list of values raises
  \<^verbatim>\<open>IndexError\<close> there (\<^verbatim>\<open>response.get(attr, [None])[0]\<close>).
\<close>

definition build_user_information ::
  "ldap_users \<Rightarrow> attrs \<Rightarrow> py_exc + (user_information option \<times> string option)"
where
  "build_user_information c response =
     (case map_of response (uid_attr c) of
        None \<Rightarrow>
          Inr (None, Some (''Missing uid field '' @ [CHR 0x22] @ uid_attr c @ [CHR 0x22]
                             @ '' in user record''))
      | Some [] \<Rightarrow>
          Inr (None, Some (''Missing uid field '' @ [CHR 0x22] @ uid_attr c @ [CHR 0x22]
                             @ '' in user record''))
      | Some (u # us) \<Rightarrow>
          if requires_email c
             \<and> (case map_of response (email_attr c) of None \<Rightarrow> True | Some vs \<Rightarrow> vs = [])
          then
            Inr (None, Some (''Missing mail field '' @ [CHR 0x22] @ email_attr c @ [CHR 0x22]
                               @ '' in user record''))
          else
            (case map_of response (email_attr c) of
               None \<Rightarrow>
                 Inr (Some \<lparr>username = decode_or_raw u, email = None,
                             user_id = decode_or_raw u\<rparr>, None)
             | Some [] \<Rightarrow> Inl IndexError
             | Some (m # ms) \<Rightarrow>
                 Inr (Some \<lparr>username = decode_or_raw u, email = Some (decode_or_raw m),
                             user_id = decode_or_raw u\<rparr>, None)))"

definition lift :: "py_exc + 'a \<Rightarrow> 'a io" where
  "lift r = ([], r)"

section \<open>Lookup and verification\<close>


text \<open>
  The bind as the user found, on a connection of its own (\<^verbatim>\<open>with ...: pass\<close>), and
  on a referral one more bind as the referral's DN.  The value is the message of a failed
  verification, or \<^verbatim>\<open>None\<close> when the bind went through.
\<close>

definition bind_as_user :: "directory \<Rightarrow> string \<Rightarrow> string \<Rightarrow> string option io" where
  "bind_as_user w found_dn password =
     (case with_connection w found_dn password (ret ()) of
        (t, Inr _) \<Rightarrow> (t, Inr None)
      | (t, Inl (LDAPExc e)) \<Rightarrow>
          if exc_class e = REFERRAL then
            (case get_ldap_referral_dn e of
               Inl x \<Rightarrow> (t, Inl x)
             | Inr None \<Rightarrow> (t, Inr (Some ''Invalid username or password.''))
             | Inr (Some referral_dn) \<Rightarrow>
                 if referral_dn = [] then (t, Inr (Some ''Invalid username or password.''))
                 else
                   (case with_connection w referral_dn password (ret ()) of
                      (t', Inr _) \<Rightarrow> (t @ t', Inr None)
                    | (t', Inl (LDAPExc e')) \<Rightarrow>
                        if exc_class e' = INVALID_CREDENTIALS
                        then (t @ t', Inr (Some ''Invalid username or password.''))
                        else (t @ t', Inl (LDAPExc e'))
                    | (t', Inl e') \<Rightarrow> (t @ t', Inl e')))
          else if exc_class e = INVALID_CREDENTIALS
          then (t, Inr (Some ''Invalid username or password.''))
          else (t, Inl (LDAPExc e))
      | (t, Inl e) \<Rightarrow> (t, Inl e))"

definition verify_credentials ::
  "ldap_users \<Rightarrow> directory \<Rightarrow> string \<Rightarrow> string
     \<Rightarrow> (user_information option \<times> string option) io"
where
  "verify_credentials c w username_or_email password =
     (if password = [] then ret (None, Some ''Anonymous binding not allowed.'')
      else
        bnd (ldap_single_user_search c w username_or_email False False False)
          (\<lambda>(found_user, err_msg).
             case found_user of
               None \<Rightarrow> ret (None, err_msg)
             | Some (found_dn, found_response) \<Rightarrow>
                 bnd (bind_as_user w found_dn password)
                   (\<lambda>bad. case bad of
                             Some msg \<Rightarrow> ret (None, Some msg)
                           | None \<Rightarrow> lift (build_user_information c found_response))))"

section \<open>Roles\<close>

definition is_restricted_user :: "ldap_users \<Rightarrow> directory \<Rightarrow> string \<Rightarrow> bool io" where
  "is_restricted_user c w username_or_email =
     (if username_or_email = [] then ret False
      else if ldap_restricted_user_filter c = None then ret True
      else if robots w username_or_email then ret False
      else
        bnd (ldap_single_user_search c w username_or_email False True False)
          (\<lambda>(found_user, err_msg).
             case found_user of None \<Rightarrow> ret False | Some u \<Rightarrow> ret True))"

text \<open>
  \<^verbatim>\<open>at_least_one_user_exists\<close>: every candidate base path is asked for one entry.  The
  first component of the value is \<^verbatim>\<open>None\<close>, \<^verbatim>\<open>False\<close> or \<^verbatim>\<open>True\<close>.
\<close>

definition exists_filter :: "ldap_users \<Rightarrow> bool \<Rightarrow> bool \<Rightarrow> py_exc + (string + string)" where
  "exists_filter c filter_superusers filter_restricted_users =
     (case add_user_filter c ''(objectClass=*)'' of
        Inl e \<Rightarrow> Inl e
      | Inr search_flt \<Rightarrow>
          if filter_restricted_users then
            (if truthy (ldap_restricted_user_filter c)
             then map_sum id Inr (add_restricted_user_filter c search_flt)
             else Inr (Inl ''Superuser filter not set''))
          else if filter_superusers then
            (if truthy (ldap_superuser_filter c)
             then map_sum id Inr (add_superuser_filter c search_flt)
             else Inr (Inl ''Restricted user filter not set''))
          else Inr (Inr search_flt))"

definition lde_message :: "ldap_exc \<Rightarrow> string \<Rightarrow> string" where
  "lde_message lde user_search_dn =
     (if exc_str lde \<noteq> [] then exc_str lde else ''Could not find DN '' @ user_search_dn)"

fun exists_in_dns ::
  "ldap_users \<Rightarrow> directory \<Rightarrow> bool \<Rightarrow> bool \<Rightarrow> string list \<Rightarrow> (bool option \<times> string option) io"
where
  "exists_in_dns c w fs fr [] = ret (Some False, None)"
| "exists_in_dns c w fs fr (user_search_dn # dns) =
     (case exists_filter c fs fr of
        Inl e \<Rightarrow> raise e
      | Inr (Inl msg) \<Rightarrow> ret (Some False, Some msg)
      | Inr (Inr search_flt) \<Rightarrow>
          (let req = SearchReq user_search_dn SCOPE_SUBTREE search_flt None
                       (if \<not> force_no_pagination c then Some (1, []) else None) in
           case search_issue w req of
             Some lde \<Rightarrow>
               ([SearchIssue req], Inr (Some False, Some (lde_message lde user_search_dn)))
           | None \<Rightarrow>
               (case search_result w req of
                  Inl lde \<Rightarrow>
                    ([SearchIssue req, SearchResult req],
                     Inr (Some False, Some (lde_message lde user_search_dn)))
                | Inr (rdata, serverctrls) \<Rightarrow>
                    if rdata \<noteq> [] then ([SearchIssue req, SearchResult req], Inr (Some True, None))
                    else bnd ([SearchIssue req, SearchResult req], Inr ())
                           (\<lambda>_. exists_in_dns c w fs fr dns))))"

definition at_least_one_user_exists ::
  "ldap_users \<Rightarrow> directory \<Rightarrow> bool \<Rightarrow> bool \<Rightarrow> (bool option \<times> string option) io"
where
  "at_least_one_user_exists c w filter_superusers filter_restricted_users =
     bnd (check_admin_bind c w) (\<lambda>bad.
       case bad of
         Some msg \<Rightarrow> ret (None, Some msg)
       | None \<Rightarrow>
           with_connection w (admin_dn c) (admin_passwd c)
             (exists_in_dns c w filter_superusers filter_restricted_users (user_dns c)))"

text \<open>
  Python's truth value of a tuple: a tuple of two components is not empty, so it is true
  whatever it holds.
\<close>

definition pair_truthy :: "'a \<times> 'b \<Rightarrow> bool" where
  "pair_truthy p = True"

text \<open>
  \<^verbatim>\<open>has_restricted_users\<close>.  Line 630 tests the pair that
  \<^verbatim>\<open>at_least_one_user_exists()\<close> returns, not its first component.
\<close>

definition has_restricted_users :: "ldap_users \<Rightarrow> directory \<Rightarrow> bool option io" where
  "has_restricted_users c w =
     bnd (if ldap_restricted_user_filter c = None
          then bnd (at_least_one_user_exists c w False False) (\<lambda>r. ret (pair_truthy r))
          else ret False)
       (\<lambda>shortcut.
          if shortcut then ret (Some True)
          else bnd (at_least_one_user_exists c w False True)
                 (\<lambda>(has_restricted_users, _). ret has_restricted_users))"

section \<open>Group members\<close>

text \<open>
  \<^verbatim>\<open>_iterate_members\<close> is a generator.  Its run is the sequence of what it does, in
  order: the directory operations it performs and the items it yields; a consumer that
  stops pulling sees a prefix of it.  The paging loop goes on as long as the server hands
  out cookies, so the run is computed up to a number of batches per base path (the fuel)
  and ends in one of three ways: the generator is exhausted, it raised, or the fuel ran
  out while it was still going.
\<close>

type_synonym item = "user_information option \<times> string option"

datatype event = Op ldap_op | Yield item

datatype finish = Done | Raised py_exc | OutOfFuel

definition yields_of :: "event list \<Rightarrow> item list" where
  "yields_of evs = List.map_filter (\<lambda>ev. case ev of Yield i \<Rightarrow> Some i | Op _ \<Rightarrow> None) evs"

text \<open>
  \<^verbatim>\<open>ldap.filter.filter_format("(%s=%s,%s)", (memberof_attr, group_dn, base_dn))\<close>:
  every argument is escaped before it is substituted.
\<close>

definition membership_filter :: "string \<Rightarrow> string \<Rightarrow> string \<Rightarrow> string" where
  "membership_filter memberof group_dn base =
     ''('' @ escape_filter_chars memberof @ ''='' @ escape_filter_chars group_dn
       @ '','' @ escape_filter_chars base @ '')''"

text \<open>
  The loop over one batch (lines 684--689): a search reference is counted and skipped, an
  entry is resolved and the outcome yielded.  An exception of the resolution is not an
  LDAP error, so no handler of the generator catches it.
\<close>

fun yield_users :: "ldap_users \<Rightarrow> search_entry list \<Rightarrow> event list \<times> py_exc option" where
  "yield_users c [] = ([], None)"
| "yield_users c (SearchRef urls # rdata) = yield_users c rdata"
| "yield_users c (Entry dn a # rdata) =
     (case build_user_information c a of
        Inl e \<Rightarrow> ([], Some e)
      | Inr i \<Rightarrow> (case yield_users c rdata of (evs, x) \<Rightarrow> (Yield i # evs, x)))"

definition paged_oid :: string where
  "paged_oid = ''1.2.840.113556.1.4.319''"

text \<open>
  Lines 725--757.  \<open>paging_cookie\<close> is the cookie of the first paging control among the
  server's response controls (\<^verbatim>\<open>pctrls[0].cookie\<close>), if there is one;
  \<open>next_req\<close> is the search for the next page, sent when that cookie is not empty: the
  same search with the cookie put into the paging control.
\<close>

definition paging_cookie :: "control list \<Rightarrow> string option" where
  "paging_cookie serverctrls =
     (case filter (\<lambda>ctl. controlType ctl = paged_oid) serverctrls of
        [] \<Rightarrow> None
      | p # ps \<Rightarrow> Some (cookie p))"

definition next_req :: "search_req \<Rightarrow> control list \<Rightarrow> search_req option" where
  "next_req req serverctrls =
     (case paging_cookie serverctrls of
        None \<Rightarrow> None
      | Some ck \<Rightarrow>
          if ck \<noteq> [] then
            Some (SearchReq (req_base req) (req_scope req) (req_filter req) (req_attrlist req)
                    (map_option (\<lambda>(page_size, _). (page_size, ck)) (req_paging req)))
          else None)"

text \<open>
  The \<^verbatim>\<open>while True\<close> loop, for the request whose message id is pending.  A directory
  error of the fetch ends the loop: \<^verbatim>\<open>NO_SUCH_OBJECT\<close> is logged and leaves
  \<^verbatim>\<open>found_results\<close> at zero, every other one breaks.  The search for the next page
  (line 740) is outside the \<^verbatim>\<open>try\<close>: its error leaves the generator.
\<close>

fun drain :: "ldap_users \<Rightarrow> directory \<Rightarrow> bool \<Rightarrow> nat \<Rightarrow> search_req \<Rightarrow> event list \<times> finish" where
  "drain c w has_pagination 0 req = ([], OutOfFuel)"
| "drain c w has_pagination (Suc fuel) req =
     (case search_result w req of
        Inl lde \<Rightarrow>
          if exc_class lde = NO_SUCH_OBJECT then ([Op (SearchResult req)], Done)
          else ([Op (SearchResult req)], Done)
      | Inr (rdata, serverctrls) \<Rightarrow>
          (case yield_users c rdata of
             (evs, Some e) \<Rightarrow> (Op (SearchResult req) # evs, Raised e)
           | (evs, None) \<Rightarrow>
               if length rdata = 0 then (Op (SearchResult req) # evs, Done)
               else if \<not> has_pagination then (Op (SearchResult req) # evs, Done)
               else
                 (case next_req req serverctrls of
                    None \<Rightarrow> (Op (SearchResult req) # evs, Done)
                  | Some req' \<Rightarrow>
                      (case search_issue w req' of
                         Some lde \<Rightarrow>
                           (Op (SearchResult req) # evs @ [Op (SearchIssue req')],
                            Raised (LDAPExc lde))
                       | None \<Rightarrow>
                           (case drain c w has_pagination fuel req' of
                              (evs', f) \<Rightarrow>
                                (Op (SearchResult req) # evs @ Op (SearchIssue req') # evs', f))))))"

text \<open>
  The \<^verbatim>\<open>for user_search_dn in self._user_dns\<close> loop.  The \<^verbatim>\<open>break\<close> of line 673
  (the first search of a path could not be issued) is a break of this loop.
\<close>

definition first_req :: "ldap_users \<Rightarrow> bool \<Rightarrow> nat \<Rightarrow> string \<Rightarrow> string \<Rightarrow> search_req" where
  "first_req c has_pagination page_size search_flt user_search_dn =
     SearchReq user_search_dn SCOPE_SUBTREE search_flt (Some [uid_attr c, email_attr c])
       (if has_pagination then Some (page_size, []) else None)"

fun iterate_dns ::
  "ldap_users \<Rightarrow> directory \<Rightarrow> bool \<Rightarrow> nat \<Rightarrow> string \<Rightarrow> nat \<Rightarrow> string list \<Rightarrow> event list \<times> finish"
where
  "iterate_dns c w has_pagination page_size search_flt fuel [] = ([], Done)"
| "iterate_dns c w has_pagination page_size search_flt fuel (user_search_dn # dns) =
     (let req = first_req c has_pagination page_size search_flt user_search_dn in
      case search_issue w req of
        Some lde \<Rightarrow> ([Op (SearchIssue req)], Done)
      | None \<Rightarrow>
          (case drain c w has_pagination fuel req of
             (evs, Done) \<Rightarrow>
               (case iterate_dns c w has_pagination page_size search_flt fuel dns of
                  (evs', f) \<Rightarrow> (Op (SearchIssue req) # evs @ evs', f))
           | (evs, f) \<Rightarrow> (Op (SearchIssue req) # evs, f)))"

text \<open>
  \<^verbatim>\<open>_iterate_members\<close>: the whole body runs inside
  \<^verbatim>\<open>with self._ldap.get_connection() as conn\<close>, so the connection is unbound when the
  generator ends, exhausted or by an exception.
\<close>

definition iterate_members ::
  "ldap_users \<Rightarrow> directory \<Rightarrow> string \<Rightarrow> string \<Rightarrow> nat \<Rightarrow> bool \<Rightarrow> nat \<Rightarrow> event list \<times> finish"
where
  "iterate_members c w group_dn memberof page_size disable_pagination fuel =
     (let has_pagination = \<not> (force_no_pagination c \<or> disable_pagination) in
      case simple_bind_s w (admin_dn c) (admin_passwd c) of
        Some e \<Rightarrow> ([Op (SimpleBind (admin_dn c) (admin_passwd c))], Raised (LDAPExc e))
      | None \<Rightarrow>
          (case add_user_filter c (membership_filter memberof group_dn (base_dn c)) of
             Inl e \<Rightarrow>
               ([Op (SimpleBind (admin_dn c) (admin_passwd c)), Op Unbind], Raised e)
           | Inr search_flt \<Rightarrow>
               (case iterate_dns c w has_pagination page_size search_flt fuel (user_dns c) of
                  (evs, OutOfFuel) \<Rightarrow>
                    (Op (SimpleBind (admin_dn c) (admin_passwd c)) # evs, OutOfFuel)
                | (evs, f) \<Rightarrow>
                    (Op (SimpleBind (admin_dn c) (admin_passwd c)) # evs @ [Op Unbind], f))))"

text \<open>
  \<^verbatim>\<open>iterate_group_members\<close>: the admin bind is checked, then the generator is
  returned; nothing of it has run yet.  \<open>group_dn\<close> is
  \<^verbatim>\<open>group_lookup_args.get("group_dn")\<close>; \<^verbatim>\<open>page_size or _DEFAULT_PAGE_SIZE\<close>
  replaces \<^verbatim>\<open>None\<close> and 0 by 1000.
\<close>

definition iterate_group_members ::
  "ldap_users \<Rightarrow> directory \<Rightarrow> string option \<Rightarrow> nat option \<Rightarrow> bool \<Rightarrow> nat
     \<Rightarrow> ((event list \<times> finish) option \<times> string option) io"
where
  "iterate_group_members c w group_dn page_size disable_pagination fuel =
     bnd (check_admin_bind c w) (\<lambda>bad.
       case bad of
         Some msg \<Rightarrow> ret (None, Some msg)
       | None \<Rightarrow>
           (case group_dn of
              None \<Rightarrow> raise KeyError
            | Some g \<Rightarrow>
                ret (Some (iterate_members c w g (memberof_attr c)
                             (case page_size of None \<Rightarrow> 1000
                              | Some n \<Rightarrow> if n = 0 then 1000 else n)
                             disable_pagination fuel), None)))"

text \<open>
  \<^verbatim>\<open>next(it, False)\<close> on a run: the first item yielded (\<open>Some (Inr (Some i))\<close>), the
  default when the generator is exhausted without one (\<open>Some (Inr None)\<close>), the
  exception when it raised before one, and nothing when the fuel of the run does not
  reach that far.
\<close>

definition next_or_default :: "event list \<times> finish \<Rightarrow> (py_exc + item option) option" where
  "next_or_default run =
     (case yields_of (fst run) of
        i # rest \<Rightarrow> Some (Inr (Some i))
      | [] \<Rightarrow>
          (case snd run of
             Done \<Rightarrow> Some (Inr None)
           | Raised e \<Rightarrow> Some (Inl e)
           | OutOfFuel \<Rightarrow> None))"

text \<open>
  \<^verbatim>\<open>check_group_lookup_args\<close>.  The value is \<^verbatim>\<open>None\<close> when the fuel does not
  decide it.  What \<^verbatim>\<open>next\<close> returns is tested for truth: an item is a pair, the
  default is \<^verbatim>\<open>False\<close>.
\<close>

definition check_group_lookup_args ::
  "ldap_users \<Rightarrow> directory \<Rightarrow> string option \<Rightarrow> bool \<Rightarrow> nat
     \<Rightarrow> (py_exc + (bool \<times> string option)) option"
where
  "check_group_lookup_args c w group_dn disable_pagination fuel =
     (if \<not> truthy group_dn then Some (Inr (False, Some ''Missing group_dn''))
      else
        case snd (iterate_group_members c w group_dn (Some 1) disable_pagination fuel) of
          Inl e \<Rightarrow> Some (Inl e)
        | Inr (_, Some err) \<Rightarrow> Some (Inr (False, Some err))
        | Inr (None, None) \<Rightarrow> Some (Inl TypeError)
        | Inr (Some it, None) \<Rightarrow>
            (case next_or_default it of
               None \<Rightarrow> None
             | Some (Inl e) \<Rightarrow> Some (Inl e)
             | Some (Inr None) \<Rightarrow> Some (Inr (False, Some ''Group does not exist or is empty''))
             | Some (Inr (Some i)) \<Rightarrow>
                 if \<not> pair_truthy i
                 then Some (Inr (False, Some ''Group does not exist or is empty''))
                 else Some (Inr (True, None))))"

section \<open>Notions used in the statements\<close>

text \<open>
  What \<^verbatim>\<open>_add_user_filter\<close> returns: its assertions hold for every input (see
  \<open>add_user_filter_ok\<close>).
\<close>

definition user_filtered :: "ldap_users \<Rightarrow> string \<Rightarrow> string" where
  "user_filtered c q =
     (case ldap_user_filter c of
        None \<Rightarrow> q
      | Some f \<Rightarrow> if f = [] then q else ''(&'' @ paren q @ paren f @ '')'')"

text \<open>
  The payload of a referral that cannot be followed: it has no info block, or the info
  does not start with the header line, or what follows the header does not start with the
  scheme.
\<close>

definition unparseable_referral :: "(string \<times> string) list \<Rightarrow> bool" where
  "unparseable_referral payload =
     (case map_of payload ''info'' of
        None \<Rightarrow> True
      | Some info \<Rightarrow>
          \<not> startswith info referral_header
          \<or> \<not> startswith (drop (length referral_header) info) ''ldap:///'')"







section \<open>Example directories\<close>

definition example_users :: ldap_users where
  "example_users =
     \<lparr>ldap_uri = ''ldap://directory'', admin_dn = ''cn=admin,dc=x,dc=com'',
      admin_passwd = ''secret'', uid_attr = ''uid'', email_attr = ''mail'',
      memberof_attr = ''memberOf'', requires_email = True, force_no_pagination = False,
      ldap_user_filter = None, ldap_superuser_filter = None,
      ldap_global_readonly_superuser_filter = None, ldap_restricted_user_filter = None,
      user_dns = init_user_dns [''dc=x'', ''dc=com''] [''ou=primary''] (Some [''ou=secondary'']),
      base_dn = join '','' [''dc=x'', ''dc=com'']\<rparr>"

definition primary_dn :: string where
  "primary_dn = ''ou=primary,dc=x,dc=com''"

definition secondary_dn :: string where
  "secondary_dn = ''ou=secondary,dc=x,dc=com''"

text \<open>A directory with no entries, where every bind and every search goes through; the
  host application has one robot account.\<close>

definition quiet_directory :: directory where
  "quiet_directory =
     \<lparr>robots = (\<lambda>name. name = ''org+bot''),
      simple_bind_s = (\<lambda>dn pw. None),
      search_s = (\<lambda>base sc flt. Inr []),
      search_issue = (\<lambda>req. None),
      search_result = (\<lambda>req. Inr ([], []))\<rparr>"

text \<open>Alice lives under the secondary base path only.\<close>

definition alice_directory :: directory where
  "alice_directory =
     quiet_directory
       \<lparr>search_s := (\<lambda>base sc flt.
          if base = secondary_dn \<and> sc = SCOPE_SUBTREE \<and> flt = ''(|(uid=alice)(mail=alice))''
          then Inr [Entry (''uid=alice,'' @ secondary_dn)
                      [(''uid'', [PyBytes ''alice'']), (''mail'', [PyBytes ''alice@x.com''])]]
          else Inr [])\<rparr>"

text \<open>Every subtree search is answered by a referral to another DN.\<close>

definition referring_directory :: directory where
  "referring_directory =
     quiet_directory
       \<lparr>search_s := (\<lambda>base sc flt.
          if sc = SCOPE_SUBTREE
          then Inl (LDAPError REFERRAL
                      (Some [(''desc'', ''Referral''),
                             (''info'', referral_header @ ''ldap:///cn=alice,dc=elsewhere'')])
                      ''Referral'')
          else Inr [])\<rparr>"












text \<open>A group whose only member has no mail attribute.\<close>

definition mailless_directory :: directory where
  "mailless_directory =
     quiet_directory
       \<lparr>search_result := (\<lambda>req.
          if req_base req = primary_dn
          then Inr ([Entry (''uid=bob,'' @ primary_dn) [(''uid'', [PyBytes ''bob''])]], [])
          else Inr ([], []))\<rparr>"




section \<open>Filters are always composed\<close>

lemma paren_wrapped: "startswith (paren q) ''(''" "endswith (paren q) '')''"
  by (auto simp: paren_def startswith_def endswith_def)

lemma add_filter_ok: "add_filter q f = Inr (''(&'' @ paren q @ paren f @ '')'')"
  using paren_wrapped by (simp add: add_filter_def Let_def)

lemma add_user_filter_ok: "add_user_filter c q = Inr (user_filtered c q)"
  by (simp add: add_user_filter_def user_filtered_def add_filter_ok split: option.splits)

lemma add_role_filter_no_raise: "\<exists>r. add_role_filter c fs fr fg q = Inr r"
  by (auto simp: add_role_filter_def truthy_def add_restricted_user_filter_def
      add_superuser_filter_def add_global_readonly_superuser_filter_def add_filter_ok
      split: option.splits)

section \<open>Escaping of the lookup term\<close>

text \<open>What \<^verbatim>\<open>escape_filter_chars\<close> returns holds none of the characters it replaces.\<close>

lemma set_replace_char:
  "set (replace_char c r s) = (set s - {c}) \<union> (if c \<in> set s then set r else {})"
  by (induction s) (auto simp: replace_char_def)

lemma escape_filter_chars_no_metachar:
  "CHR ''*'' \<notin> set (escape_filter_chars v) \<and> CHR ''('' \<notin> set (escape_filter_chars v)
   \<and> CHR '')'' \<notin> set (escape_filter_chars v) \<and> CHR 0x00 \<notin> set (escape_filter_chars v)"
  by (simp add: escape_filter_chars_def set_replace_char)

text \<open>
  C1.  The claim: every filter the user search builds from the lookup term, the filter of
  the referral retry included, has the term escaped.  The query of the first search has
  it escaped; the subquery of the referral retry (line 263) takes the term as it came.
  For the term \<^verbatim>\<open>*)(uid=*\<close> and a directory that answers with a referral, the
  second search is sent the filter \<^verbatim>\<open>(uid=*)(uid=*)\<close>.
\<close>

theorem referral_subquery_not_escaped:
  "fst (ldap_user_search_with_rdn example_users referring_directory ''*)(uid=*''
          primary_dn [] False False False)
     = [SearchS primary_dn SCOPE_SUBTREE
          (''(|(uid='' @ escape_filter_chars ''*)(uid=*'' @ '')(mail=''
             @ escape_filter_chars ''*)(uid=*'' @ ''))''),
        SearchS ''cn=alice,dc=elsewhere'' SCOPE_BASE ''(uid=*)(uid=*)'']
   \<and> escape_filter_chars ''*)(uid=*''
       = CHR 0x5C # ''2a'' @ CHR 0x5C # ''29'' @ CHR 0x5C # ''28uid='' @ CHR 0x5C # ''2a''"
  by code_simp

section \<open>Restricted users\<close>

text \<open>
  C2.  The claim: with no restricted-user filter configured, \<^verbatim>\<open>is_restricted_user\<close>
  is true for every non-empty identity that is not a robot and false for every robot.
  The test for the missing filter (line 608) comes before the robot lookup (line 612), so
  a robot is restricted as well.
\<close>

theorem is_restricted_user_robot:
  "robots quiet_directory ''org+bot'' \<and> ldap_restricted_user_filter example_users = None
   \<and> is_restricted_user example_users quiet_directory ''org+bot'' = ([], Inr True)"
  by code_simp

text \<open>
  C2, as amended: with no restricted-user filter configured, \<^verbatim>\<open>is_restricted_user\<close>
  is true for every non-empty identity, robot or not, and performs no directory
  operation.
\<close>

theorem is_restricted_user_no_filter:
  "ldap_restricted_user_filter c = None \<Longrightarrow> username_or_email \<noteq> [] \<Longrightarrow>
     is_restricted_user c w username_or_email = ([], Inr True)"
  by (simp add: is_restricted_user_def ret_def)

theorem is_restricted_user_no_filter_witness:
  "ldap_restricted_user_filter example_users = None \<and> ''alice'' \<noteq> []
   \<and> is_restricted_user example_users alice_directory ''alice'' = ([], Inr True)"
proof -
  have a: "ldap_restricted_user_filter example_users = None" by code_simp
  have b: "''alice'' \<noteq> []" by simp
  show ?thesis
    using a b is_restricted_user_no_filter [OF a b, of alice_directory] by blast
qed

text \<open>
  C3.  The claim: with no restricted-user filter configured, \<^verbatim>\<open>has_restricted_users\<close>
  is true exactly when at least one user exists, and false for a directory without users.
  Line 630 tests the pair returned by \<^verbatim>\<open>at_least_one_user_exists()\<close>, which is true
  whatever it holds: for a directory without entries, where that pair is
  \<^verbatim>\<open>(False, None)\<close>, the result is \<^verbatim>\<open>True\<close>.
\<close>

theorem has_restricted_users_empty_directory:
  "ldap_restricted_user_filter example_users = None
   \<and> snd (at_least_one_user_exists example_users quiet_directory False False)
       = Inr (Some False, None)
   \<and> snd (has_restricted_users example_users quiet_directory) = Inr (Some True)"
  by code_simp

section \<open>Credentials\<close>

text \<open>
  C7.  With an empty secret, \<^verbatim>\<open>verify_credentials\<close> returns no identity record and
  the message that anonymous binding is not allowed, for every username or email, and its
  trace of directory operations is empty: no bind, no search.
\<close>

theorem verify_credentials_empty_secret:
  "verify_credentials c w username_or_email []
     = ([], Inr (None, Some ''Anonymous binding not allowed.''))"
  by (simp add: verify_credentials_def ret_def)

section \<open>Referrals that cannot be followed\<close>

lemma unparseable_no_dn:
  "exc_args0 e = Some payload \<Longrightarrow> unparseable_referral payload \<Longrightarrow>
     get_ldap_referral_dn e = Inr None"
  by (auto simp: unparseable_referral_def get_ldap_referral_dn_def Let_def split: option.splits)

lemma follow_unparseable:
  "exc_args0 e = Some payload \<Longrightarrow> unparseable_referral payload \<Longrightarrow>
     follow_referral c w u e
       = ([], Inr (None, Some ''Failed to follow referral when looking up username''))"
  by (simp add: follow_referral_def unparseable_no_dn ret_def)





text \<open>
  The same for the whole search: when every candidate base path answers a plain lookup
  with such a referral, \<^verbatim>\<open>_ldap_user_search\<close> returns the message of the failed
  referral.
\<close>

lemma search_user_dns_unparseable:
  "exc_class e = REFERRAL \<Longrightarrow> exc_args0 e = Some payload \<Longrightarrow> unparseable_referral payload \<Longrightarrow>
   \<forall>d\<in>set dns. search_s w d SCOPE_SUBTREE (user_filtered c (user_query c u suffix)) = Inl e \<Longrightarrow>
   dns \<noteq> [] \<Longrightarrow>
     \<exists>t. search_user_dns c w u suffix False False False prev dns
       = (t, Inr (Some (None, Some ''Failed to follow referral when looking up username'')))"
proof (induction dns arbitrary: prev)
  case Nil
  then show ?case by simp
next
  case (Cons d dns)
  have one: "ldap_user_search_with_rdn c w u d suffix False False False
          = ([SearchS d SCOPE_SUBTREE (user_filtered c (user_query c u suffix))],
             Inr (None, Some ''Failed to follow referral when looking up username''))"
    using Cons.prems(1,4) follow_unparseable [OF Cons.prems(2,3)]
    by (simp add: ldap_user_search_with_rdn_def add_user_filter_ok add_role_filter_def bnd_def)
  show ?case
  proof (cases "dns = []")
    case True
    then show ?thesis using one by (simp add: bnd_def found_some_def ret_def)
  next
    case False
    then obtain t where "search_user_dns c w u suffix False False False
                     (Some (None, Some ''Failed to follow referral when looking up username'')) dns
       = (t, Inr (Some (None, Some ''Failed to follow referral when looking up username'')))"
      using Cons by fastforce
    then show ?thesis
      using one by (simp add: bnd_def found_some_def)
  qed
qed

lemma user_search_unparseable_referrals:
  assumes "u \<noteq> []" and "\<not> robots w u"
    and "simple_bind_s w (admin_dn c) (admin_passwd c) = None"
    and "user_dns c \<noteq> []"
    and "exc_class e = REFERRAL" and "exc_args0 e = Some payload"
    and "unparseable_referral payload"
    and "\<forall>d\<in>set (user_dns c).
           search_s w d SCOPE_SUBTREE (user_filtered c (user_query c u suffix)) = Inl e"
  shows "snd (ldap_user_search c w u limit suffix False False False)
           = Inr (None, Some ''Failed to follow referral when looking up username'')"
proof -
  obtain t where "search_user_dns c w u suffix False False False None (user_dns c)
       = (t, Inr (Some (None, Some ''Failed to follow referral when looking up username'')))"
    using search_user_dns_unparseable [OF assms(5-8) assms(4)] by blast
  then show ?thesis
    using assms(1-3)
    by (simp add: ldap_user_search_def check_admin_bind_def with_connection_def bnd_def ret_def)
qed

section \<open>Candidate base paths of the user search\<close>





section \<open>Runs of the group iteration\<close>

lemma yields_of_Nil [simp]: "yields_of [] = []"
  by (simp add: yields_of_def)

lemma yields_of_Op [simp]: "yields_of (Op p # evs) = yields_of evs"
  by (simp add: yields_of_def)

lemma yields_of_Yield [simp]: "yields_of (Yield i # evs) = i # yields_of evs"
  by (simp add: yields_of_def)

lemma yields_of_append [simp]: "yields_of (xs @ ys) = yields_of xs @ yields_of ys"
  by (induction xs) (auto simp: yields_of_def split: option.splits)


lemma check_admin_bind_ok:
  "simple_bind_s w (admin_dn c) (admin_passwd c) = None \<Longrightarrow>
     check_admin_bind c w
       = ([SimpleBind (admin_dn c) (admin_passwd c), Unbind], Inr None)"
  by (simp add: check_admin_bind_def with_connection_def ret_def)

lemma iterate_members_yields_bound:
  "yields_of (fst (iterate_members c w g m ps dp fuel)) \<noteq> [] \<Longrightarrow>
     simple_bind_s w (admin_dn c) (admin_passwd c) = None"
  by (cases "simple_bind_s w (admin_dn c) (admin_passwd c)")
     (simp_all add: iterate_members_def Let_def)

text \<open>
  C10.  For a non-empty group DN: when the run of \<^verbatim>\<open>_iterate_members\<close> with page
  size 1 yields at least one item, \<^verbatim>\<open>check_group_lookup_args\<close> returns
  \<^verbatim>\<open>(True, None)\<close>, whatever the item is.  In the witness the only member of the
  group has no mail attribute, the item is the pair of no record and the message of the
  missing field, and the group still validates.
\<close>

theorem check_group_lookup_args_first_item:
  assumes "g \<noteq> []"
    and "yields_of (fst (iterate_members c w g (memberof_attr c) 1 dp fuel)) = i # rest"
  shows "check_group_lookup_args c w (Some g) dp fuel = Some (Inr (True, None))"
proof -
  have "simple_bind_s w (admin_dn c) (admin_passwd c) = None"
    using assms(2) iterate_members_yields_bound [of c w g "memberof_attr c" 1 dp fuel] by simp
  then have "snd (iterate_group_members c w (Some g) (Some 1) dp fuel)
               = Inr (Some (iterate_members c w g (memberof_attr c) 1 dp fuel), None)"
    by (simp add: iterate_group_members_def check_admin_bind_ok bnd_def ret_def)
  moreover have "next_or_default (iterate_members c w g (memberof_attr c) 1 dp fuel)
                   = Some (Inr (Some i))"
    using assms(2) by (simp add: next_or_default_def)
  ultimately show ?thesis
    using assms(1) by (simp add: check_group_lookup_args_def truthy_def pair_truthy_def)
qed

theorem check_group_lookup_args_first_item_witness:
  "''cn=devs'' \<noteq> []
   \<and> yields_of (fst (iterate_members example_users mailless_directory ''cn=devs''
                        (memberof_attr example_users) 1 False 1))
       = (None, Some (''Missing mail field '' @ [CHR 0x22] @ ''mail'' @ [CHR 0x22]
                        @ '' in user record'')) # []
   \<and> check_group_lookup_args example_users mailless_directory (Some ''cn=devs'') False 1
       = Some (Inr (True, None))"
proof -
  have a: "''cn=devs'' \<noteq> []" by simp
  have b: "yields_of (fst (iterate_members example_users mailless_directory ''cn=devs''
                        (memberof_attr example_users) 1 False 1))
       = (None, Some (''Missing mail field '' @ [CHR 0x22] @ ''mail'' @ [CHR 0x22]
                        @ '' in user record'')) # []"
    by code_simp
  show ?thesis
    using a b check_group_lookup_args_first_item [OF a b] by blast
qed














end
